theory Spec2Isabelle
  imports Complex_Main
begin

section \<open>JavaScript values\<close>

text \<open>
  A JavaScript \<open>number\<close> is an IEEE-754 binary64 value.  A finite one is represented by
  the rational it denotes (\<open>Fin\<close>); the two zeros are identified.  The arithmetic
  operators round their exact result to the nearest binary64 value, ties to even
  (\<open>round_double\<close>), as the language prescribes.
\<close>

datatype number = NaN | PosInf | NegInf | Fin rat

function bit_length :: "int \<Rightarrow> nat" where
  "bit_length n = (if n \<le> 0 then 0 else Suc (bit_length (n div 2)))"
  by pat_completeness auto
termination
  by (relation "measure nat") auto

declare bit_length.simps [simp del]

definition pow2 :: "int \<Rightarrow> rat" where
  "pow2 e = (if 0 \<le> e then 2 ^ nat e else 1 / 2 ^ nat (- e))"

definition ilog2 :: "rat \<Rightarrow> int" where
  \<comment> \<open>\<open>\<lfloor>log\<^sub>2 a\<rfloor>\<close> for \<open>a > 0\<close>\<close>
  "ilog2 a = (if 1 \<le> a then int (bit_length \<lfloor>a\<rfloor>) - 1
              else - int (bit_length (\<lceil>1 / a\<rceil> - 1)))"

definition round_half_even :: "rat \<Rightarrow> int" where
  "round_half_even q =
     (let f = \<lfloor>q\<rfloor>; d = q - of_int f
      in if d < 1 / 2 then f else if 1 / 2 < d then f + 1 else if even f then f else f + 1)"

definition round_double :: "rat \<Rightarrow> number" where
  \<comment> \<open>53 significant bits, exponents from -1022 (subnormals below) to 1023 (overflow above)\<close>
  "round_double x =
     (if x = 0 then Fin 0
      else let a = \<bar>x\<bar>;
               e = max (ilog2 a) (- 1022);
               u = pow2 (e - 52);
               r = of_int (round_half_even (a / u)) * u
           in if pow2 1024 \<le> r then (if 0 < x then PosInf else NegInf)
              else Fin (if 0 < x then r else - r))"

definition is_double :: "rat \<Rightarrow> bool" where
  "is_double r = (round_double r = Fin r)"

fun js_mul :: "number \<Rightarrow> number \<Rightarrow> number" where
  "js_mul (Fin a) (Fin b) = round_double (a * b)"
| "js_mul NaN _ = NaN"
| "js_mul _ NaN = NaN"
| "js_mul (Fin a) PosInf = (if a = 0 then NaN else if 0 < a then PosInf else NegInf)"
| "js_mul (Fin a) NegInf = (if a = 0 then NaN else if 0 < a then NegInf else PosInf)"
| "js_mul PosInf (Fin b) = (if b = 0 then NaN else if 0 < b then PosInf else NegInf)"
| "js_mul NegInf (Fin b) = (if b = 0 then NaN else if 0 < b then NegInf else PosInf)"
| "js_mul PosInf PosInf = PosInf"
| "js_mul PosInf NegInf = NegInf"
| "js_mul NegInf PosInf = NegInf"
| "js_mul NegInf NegInf = PosInf"

fun js_div_pos :: "number \<Rightarrow> rat \<Rightarrow> number" where
  \<comment> \<open>\<open>x / c\<close> for a finite constant \<open>c > 0\<close>\<close>
  "js_div_pos (Fin a) c = round_double (a / c)"
| "js_div_pos n c = n"

fun js_sub :: "number \<Rightarrow> number \<Rightarrow> number" where
  "js_sub (Fin a) (Fin b) = round_double (a - b)"
| "js_sub NaN _ = NaN"
| "js_sub _ NaN = NaN"
| "js_sub PosInf PosInf = NaN"
| "js_sub NegInf NegInf = NaN"
| "js_sub PosInf _ = PosInf"
| "js_sub NegInf _ = NegInf"
| "js_sub (Fin a) PosInf = NegInf"
| "js_sub (Fin a) NegInf = PosInf"

fun Math_floor :: "number \<Rightarrow> number" where
  "Math_floor (Fin a) = Fin (of_int \<lfloor>a\<rfloor>)"
| "Math_floor n = n"

fun Math_max0 :: "number \<Rightarrow> number" where
  \<comment> \<open>\<open>Math.max(x, 0)\<close>\<close>
  "Math_max0 (Fin a) = Fin (max a 0)"
| "Math_max0 NaN = NaN"
| "Math_max0 PosInf = PosInf"
| "Math_max0 NegInf = Fin 0"

fun Number_isFinite :: "number \<Rightarrow> bool" where
  "Number_isFinite (Fin a) = True"
| "Number_isFinite _ = False"

fun ge_zero :: "number \<Rightarrow> bool" where
  \<comment> \<open>\<open>x >= 0\<close>\<close>
  "ge_zero (Fin a) = (0 \<le> a)"
| "ge_zero PosInf = True"
| "ge_zero _ = False"

text \<open>
  A value as \<open>JSON.parse\<close> or a property access delivers it.  An object is the list of
  its own properties in enumeration order (the order of \<open>Object.values\<close>); a property that
  is absent reads as \<open>undefined\<close>.
\<close>

datatype json =
    JUndefined
  | JNull
  | JBool bool
  | JNum number
  | JStr string
  | JArr "json list"
  | JObj "(string \<times> json) list"

fun truthy :: "json \<Rightarrow> bool" where
  "truthy JUndefined = False"
| "truthy JNull = False"
| "truthy (JBool b) = b"
| "truthy (JNum n) = (n \<noteq> NaN \<and> n \<noteq> Fin 0)"
| "truthy (JStr s) = (s \<noteq> [])"
| "truthy (JArr xs) = True"
| "truthy (JObj kvs) = True"

definition field :: "(string \<times> json) list \<Rightarrow> string \<Rightarrow> json" where
  "field kvs k = (case map_of kvs k of None \<Rightarrow> JUndefined | Some v \<Rightarrow> v)"

fun get :: "json \<Rightarrow> string \<Rightarrow> json" where
  \<comment> \<open>\<open>value[key]\<close> for a named key, on a value that is neither null nor undefined\<close>
  "get (JObj kvs) k = field kvs k"
| "get _ k = JUndefined"

fun has_key :: "json \<Rightarrow> string \<Rightarrow> bool" where
  \<comment> \<open>\<open>key in value\<close>\<close>
  "has_key (JObj kvs) k = (k \<in> fst ` set kvs)"
| "has_key _ k = False"

fun Object_values :: "json \<Rightarrow> json list" where
  "Object_values (JObj kvs) = map snd kvs"
| "Object_values (JArr xs) = xs"
| "Object_values _ = []"

fun is_object :: "json \<Rightarrow> bool" where
  \<comment> \<open>\<open>typeof value === 'object'\<close>, which holds of \<open>null\<close> too\<close>
  "is_object JNull = True"
| "is_object (JArr xs) = True"
| "is_object (JObj kvs) = True"
| "is_object _ = False"

fun as_bool :: "json \<Rightarrow> bool option" where
  \<comment> \<open>the value when \<open>typeof value === 'boolean'\<close>\<close>
  "as_bool (JBool b) = Some b"
| "as_bool _ = None"

fun as_string :: "json \<Rightarrow> string option" where
  \<comment> \<open>the value when \<open>typeof value === 'string'\<close>\<close>
  "as_string (JStr s) = Some s"
| "as_string _ = None"

fun as_array :: "json \<Rightarrow> json list option" where
  \<comment> \<open>the elements when \<open>Array.isArray(value)\<close>\<close>
  "as_array (JArr xs) = Some xs"
| "as_array _ = None"

subsection \<open>Strings\<close>

text \<open>Strings are modelled over the ASCII range.\<close>

definition charCode :: "char \<Rightarrow> nat" where
  "charCode c = of_char c"

definition lower_char :: "char \<Rightarrow> char" where
  \<comment> \<open>\<open>A\<close>..\<open>Z\<close> are 65..90\<close>
  "lower_char c = (if 65 \<le> charCode c \<and> charCode c \<le> 90 then char_of (charCode c + 32) else c)"

definition toLowerCase :: "string \<Rightarrow> string" where
  "toLowerCase s = map lower_char s"

definition is_space :: "char \<Rightarrow> bool" where
  "is_space c = (c \<in> set [CHR 0x09, CHR 0x0A, CHR 0x0B, CHR 0x0C, CHR 0x0D, CHR '' ''])"

definition trim :: "string \<Rightarrow> string" where
  "trim s = rev (dropWhile is_space (rev (dropWhile is_space s)))"

definition is_hex_char :: "char \<Rightarrow> bool" where
  \<comment> \<open>\<open>0\<close>..\<open>9\<close> are 48..57, \<open>a\<close>..\<open>f\<close> are 97..102, \<open>A\<close>..\<open>F\<close> are 65..70\<close>
  "is_hex_char c = ((48 \<le> charCode c \<and> charCode c \<le> 57) \<or> (97 \<le> charCode c \<and> charCode c \<le> 102)
                    \<or> (65 \<le> charCode c \<and> charCode c \<le> 70))"

definition is_hex :: "string \<Rightarrow> bool" where
  \<comment> \<open>\<open>/^[0-9a-f]+$/i.test(s)\<close>\<close>
  "is_hex s = (s \<noteq> [] \<and> list_all is_hex_char s)"

definition startsWith :: "string \<Rightarrow> string \<Rightarrow> bool" where
  "startsWith s p = (take (length p) s = p)"

fun str_includes :: "string \<Rightarrow> string \<Rightarrow> bool" where
  "str_includes [] p = (p = [])"
| "str_includes (c # s) p = (startsWith (c # s) p \<or> str_includes s p)"

fun first_some :: "'a option list \<Rightarrow> 'a option" where
  "first_some [] = None"
| "first_some (None # xs) = first_some xs"
| "first_some (Some x # xs) = Some x"

fun first_truthy :: "string option list \<Rightarrow> string option" where
  \<comment> \<open>the loop \<open>for (...) { const found = ...; if (found) return found }\<close>; \<open>undefined\<close> after it\<close>
  "first_truthy [] = None"
| "first_truthy (None # xs) = first_truthy xs"
| "first_truthy (Some s # xs) = (if s \<noteq> [] then Some s else first_truthy xs)"

section \<open>Response normalizer (wallet_manager.ts)\<close>

lemma size_field_less:
  "size (field kvs k) < Suc (size_list (size_prod (\<lambda>_. 0) size) kvs)"
proof (cases "map_of kvs k")
  case None
  then show ?thesis by (simp add: field_def)
next
  case (Some v)
  then have "(k, v) \<in> set kvs" by (rule map_of_SomeD)
  then have "size_prod (\<lambda>_. 0) size (k, v) \<le> size_list (size_prod (\<lambda>_. 0) size) kvs"
    by (simp add: size_list_estimation')
  with Some show ?thesis by (simp add: field_def)
qed

lemma size_field_elem_less:
  "as_array (field kvs k) = Some xs \<Longrightarrow> x \<in> set xs \<Longrightarrow> size x < Suc (size_list (size_prod (\<lambda>_. 0) size) kvs)"
proof -
  assume "as_array (field kvs k) = Some xs" and b: "x \<in> set xs"
  then have a: "field kvs k = JArr xs" by (cases "field kvs k") simp_all
  from b have "size x \<le> size_list size xs" by (simp add: size_list_estimation')
  then have "size x < size (JArr xs)" by simp
  moreover have "size (field kvs k) < Suc (size_list (size_prod (\<lambda>_. 0) size) kvs)"
    by (rule size_field_less)
  ultimately show ?thesis using a by simp
qed

definition first_string_field :: "(string \<times> json) list \<Rightarrow> string list \<Rightarrow> string option" where
  \<comment> \<open>\<open>for (const key of keys) { if (typeof record[key] === 'string') return record[key] }\<close>\<close>
  "first_string_field kvs keys =
     first_some (map (\<lambda>k. as_string (field kvs k)) keys)"

fun findPreimage :: "json \<Rightarrow> string option" where
  "findPreimage (JStr s) = (if length s = 64 \<and> is_hex s then Some s else None)"
| "findPreimage (JObj kvs) =
     (case first_string_field kvs [''preimage'', ''paymentPreimage'', ''preImage''] of
        Some s \<Rightarrow> Some s
      | None \<Rightarrow> first_truthy (map (\<lambda>(k, v). findPreimage v) kvs))"
| "findPreimage (JArr xs) = first_truthy (map findPreimage xs)"
| "findPreimage _ = None"

definition flag_of_string :: "string \<Rightarrow> bool option" where
  \<comment> \<open>\<open>findSuccessFlag\<close> on a string: the empty string is falsy, and a string is no object\<close>
  "flag_of_string s =
     (if s = [] then None
      else let normalized = toLowerCase s
           in if normalized \<in> set [''ok'', ''success'', ''paid'', ''settled'', ''completed''] then Some True
              else if normalized \<in> set [''error'', ''failed'', ''rejected''] then Some False
              else None)"

fun findSuccessFlag :: "json \<Rightarrow> bool option" where
  "findSuccessFlag (JBool b) = (if b then Some True else None)"
| "findSuccessFlag (JStr s) = flag_of_string s"
| "findSuccessFlag (JObj kvs) =
     (case as_bool (field kvs ''success'') of
        Some b \<Rightarrow> Some b
      | None \<Rightarrow> (case as_string (field kvs ''status'') of
                   Some s \<Rightarrow> flag_of_string s
                 | None \<Rightarrow> (case as_string (field kvs ''state'') of
                              Some s \<Rightarrow> flag_of_string s
                            | None \<Rightarrow> first_some (map (\<lambda>(k, v). findSuccessFlag v) kvs))))"
| "findSuccessFlag (JArr xs) = first_some (map findSuccessFlag xs)"
| "findSuccessFlag _ = None"

fun hasPayResult :: "json \<Rightarrow> bool" where
  "hasPayResult (JObj kvs) =
     (truthy (field kvs ''payResult'')
      \<or> (truthy (field kvs ''result'') \<and> is_object (field kvs ''result'')
          \<and> truthy (get (field kvs ''result'') ''payResult''))
      \<or> list_ex (\<lambda>(k, v). hasPayResult v) kvs)"
| "hasPayResult (JArr xs) = list_ex hasPayResult xs"
| "hasPayResult _ = False"

fun extractErrorMessage :: "json \<Rightarrow> string option" where
  "extractErrorMessage (JStr s) = (let trimmed = trim s in if trimmed \<noteq> [] then Some trimmed else None)"
| "extractErrorMessage (JObj kvs) =
     (case first_some (map (\<lambda>k. case as_string (field kvs k) of
                                   Some s \<Rightarrow> if trim s \<noteq> [] then Some s else None
                                 | None \<Rightarrow> None)
                        [''error'', ''message'', ''reason'', ''detail'', ''description'']) of
        Some s \<Rightarrow> Some s
      | None \<Rightarrow>
          if (case as_string (field kvs ''status'') of Some s \<Rightarrow> toLowerCase s = ''error'' | None \<Rightarrow> False)
          then Some ''Remote wallet API reported an error status.''
          else first_truthy (map (\<lambda>(k, v). if is_object v then extractErrorMessage v else None) kvs))"
| "extractErrorMessage (JArr xs) =
     first_truthy (map (\<lambda>v. if is_object v then extractErrorMessage v else None) xs)"
| "extractErrorMessage _ = None"

text \<open>
  \<open>Number(string)\<close>, the language's conversion of a string to a number, is a parameter of
  the functions that use it.
\<close>

definition msats_directKeys :: "string list" where
  "msats_directKeys = [''balanceMsats'', ''balance_msats'', ''msats'', ''amountMsats'', ''balance'']"

definition pending_directKeys :: "string list" where
  "pending_directKeys = [''pendingMsats'', ''pending_msats'', ''pendingAmountMsats'', ''pending'']"

definition nestedKeys :: "string list" where
  "nestedKeys = [''data'', ''context'', ''result'']"

function (sequential) extractMsats :: "(string \<Rightarrow> number) \<Rightarrow> json \<Rightarrow> number option" where
  "extractMsats Number (JNum n) = (if Number_isFinite n then Some n else None)"
| "extractMsats Number (JStr s) = (let parsed = Number s in if parsed \<noteq> NaN then Some parsed else None)"
| "extractMsats Number (JObj kvs) =
     (case first_some (map (\<lambda>k. if has_key (JObj kvs) k then extractMsats Number (field kvs k) else None)
                        msats_directKeys) of
        Some m \<Rightarrow> Some m
      | None \<Rightarrow>
         (case first_some (map (\<lambda>k. if has_key (JObj kvs) k then extractMsats Number (field kvs k) else None)
                            nestedKeys) of
            Some m \<Rightarrow> Some m
          | None \<Rightarrow>
             (case as_array (field kvs ''balances'') of
                Some xs \<Rightarrow> first_some (map (extractMsats Number) xs)
              | None \<Rightarrow> None)))"
| "extractMsats Number _ = None"
  by pat_completeness auto
termination
proof (relation "measure (\<lambda>(Number, v). size v)")
  show "wf (measure (\<lambda>(Number, v). size v))" by simp
next
  fix Number :: "string \<Rightarrow> number" and kvs k
  show "((Number, field kvs k), (Number, JObj kvs)) \<in> measure (\<lambda>(Number, v). size v)"
    using size_field_less [of kvs k] by simp
next
  fix Number :: "string \<Rightarrow> number" and kvs k
  show "((Number, field kvs k), (Number, JObj kvs)) \<in> measure (\<lambda>(Number, v). size v)"
    using size_field_less [of kvs k] by simp
next
  fix Number :: "string \<Rightarrow> number" and kvs xs x
  assume "as_array (field kvs ''balances'') = Some xs" and "x \<in> set xs"
  then show "((Number, x), (Number, JObj kvs)) \<in> measure (\<lambda>(Number, v). size v)"
    using size_field_elem_less [of kvs "''balances''" xs x] by simp
qed

function (sequential) extractPendingMsats :: "(string \<Rightarrow> number) \<Rightarrow> json \<Rightarrow> number option" where
  "extractPendingMsats Number (JNum n) = (if Number_isFinite n then Some n else None)"
| "extractPendingMsats Number (JStr s) = (let parsed = Number s in if parsed \<noteq> NaN then Some parsed else None)"
| "extractPendingMsats Number (JObj kvs) =
     (case first_some (map (\<lambda>k. if has_key (JObj kvs) k then extractPendingMsats Number (field kvs k) else None)
                        pending_directKeys) of
        Some m \<Rightarrow> Some m
      | None \<Rightarrow>
         (case first_some (map (\<lambda>k. if has_key (JObj kvs) k then extractPendingMsats Number (field kvs k) else None)
                            nestedKeys) of
            Some m \<Rightarrow> Some m
          | None \<Rightarrow>
             (case as_array (field kvs ''pending'') of
                Some xs \<Rightarrow> first_some (map (extractPendingMsats Number) xs)
              | None \<Rightarrow> None)))"
| "extractPendingMsats Number _ = None"
  by pat_completeness auto
termination
proof (relation "measure (\<lambda>(Number, v). size v)")
  show "wf (measure (\<lambda>(Number, v). size v))" by simp
next
  fix Number :: "string \<Rightarrow> number" and kvs k
  show "((Number, field kvs k), (Number, JObj kvs)) \<in> measure (\<lambda>(Number, v). size v)"
    using size_field_less [of kvs k] by simp
next
  fix Number :: "string \<Rightarrow> number" and kvs k
  show "((Number, field kvs k), (Number, JObj kvs)) \<in> measure (\<lambda>(Number, v). size v)"
    using size_field_less [of kvs k] by simp
next
  fix Number :: "string \<Rightarrow> number" and kvs xs x
  assume "as_array (field kvs ''pending'') = Some xs" and "x \<in> set xs"
  then show "((Number, x), (Number, JObj kvs)) \<in> measure (\<lambda>(Number, v). size v)"
    using size_field_elem_less [of kvs "''pending''" xs x] by simp
qed

record interpreted =
  i_success :: bool
  i_preimage :: "string option"

definition interpretNwcliPaymentResponse :: "(string \<Rightarrow> number) \<Rightarrow> json \<Rightarrow> interpreted" where
  "interpretNwcliPaymentResponse Number response =
     (let preimage = findPreimage response;
          success0 = findSuccessFlag response;
          success1 = (if success0 = None \<and> hasPayResult response then Some True else success0);
          success2 = (if success1 = None
                      then (case extractMsats Number response of
                              Some msats \<Rightarrow> if ge_zero msats then Some True else None
                            | None \<Rightarrow> None)
                      else success1)
      in \<lparr> i_success = (case success2 of Some b \<Rightarrow> b
                                       | None \<Rightarrow> preimage \<noteq> None \<and> preimage \<noteq> Some []),
           i_preimage = preimage \<rparr>)"


subsection \<open>What a tree offers as a payment proof\<close>








definition hex64_a :: string where
  "hex64_a = ''0123456789abcdef0123456789abcdef0123456789abcdef0123456789abcdef''"

section \<open>Effects\<close>

text \<open>
  A value thrown by a callee: an \<open>Error\<close> instance with its message and its \<open>data\<close>
  property (\<open>JUndefined\<close> when it has none), a string, or a value that is neither and has
  no \<open>message\<close> and no \<open>data\<close> property.  An awaited call returns \<open>Inl\<close> of what it threw or
  \<open>Inr\<close> of its value.  Every effectful function returns, next to its outcome, the events
  it caused, in order.
\<close>

datatype thrown = ErrorObj string json | ThrownStr string | ThrownOther

datatype event =
    Called string                     \<comment> \<open>entry into a function of the wallet-backend client\<close>
  | Http string string "json option"  \<comment> \<open>\<open>fetch\<close> to the wallet backend: method, URL, body before \<open>JSON.stringify\<close>\<close>
  | Fetch string                      \<comment> \<open>\<open>fetch(url)\<close> of the address discovery protocol\<close>
  | Nwc string json                   \<comment> \<open>a method call on the \<open>WalletConnect\<close> client\<close>
  | Log string                        \<comment> \<open>\<open>console.log\<close>, by its leading text\<close>
  | LogErr string thrown              \<comment> \<open>\<open>console.error\<close> / \<open>logWalletError\<close>: context and the error\<close>

record http_response =
  r_ok :: bool
  r_status :: nat
  r_statusText :: string
  r_text :: string

text \<open>
  The collaborators outside this code: the language's conversions, the environment, the
  network, the wallet-connect library, the invoice decoder and the cipher.
\<close>

record world =
  Number_of :: "string \<Rightarrow> number"                 \<comment> \<open>\<open>Number(s)\<close>\<close>
  String_of :: "number \<Rightarrow> string"                 \<comment> \<open>\<open>String(n)\<close> and \<open>${n}\<close>\<close>
  String_of_json :: "json \<Rightarrow> string"              \<comment> \<open>\<open>${v}\<close> for any value\<close>
  null_access :: string                                   \<comment> \<open>message of the \<open>TypeError\<close> for a property read on \<open>null\<close>\<close>
  SHARED_NWC_STRING :: string                             \<comment> \<open>\<open>getEnv('SHARED_NWC_STRING', '')\<close>\<close>
  decrypt :: "string \<Rightarrow> thrown + string"
  buildBaseUrl :: "thrown + string"                       \<comment> \<open>the base URL from the configuration, or the throw\<close>
  http_fetch :: "string \<Rightarrow> string \<Rightarrow> json option \<Rightarrow> thrown + http_response"
                                                          \<comment> \<open>\<open>fetch(url, init)\<close> followed by \<open>response.text()\<close>\<close>
  JSON_parse :: "string \<Rightarrow> json option"             \<comment> \<open>\<open>None\<close> when \<open>JSON.parse\<close> throws\<close>
  encodeURIComponent :: "string \<Rightarrow> string"
  new_URL :: "string \<Rightarrow> thrown + string"           \<comment> \<open>\<open>new URL(s).toString()\<close>\<close>
  callback_URL :: "json \<Rightarrow> string \<Rightarrow> thrown + string"
      \<comment> \<open>\<open>new URL(callback)\<close> with the search parameter \<open>amount\<close> set, as a string\<close>
  fetch_json :: "string \<Rightarrow> thrown + json"          \<comment> \<open>\<open>fetch(url)\<close> followed by \<open>res.json()\<close>\<close>
  decodeBolt11 :: "json \<Rightarrow> thrown + string option" \<comment> \<open>the value of the decoded \<open>amount\<close> section, if any\<close>
  nwc_connect :: "string \<Rightarrow> thrown + unit"
      \<comment> \<open>\<open>parseWalletConnectURI\<close>, \<open>hexToBytes\<close> and \<open>new WalletConnect\<close>\<close>
  nwc_payInvoice :: "json \<Rightarrow> thrown + string option" \<comment> \<open>the \<open>preimage\<close> of the result, if it has one\<close>
  nwc_getBalance :: "thrown + number"                     \<comment> \<open>the \<open>balance\<close> of the result\<close>
  nwc_makeInvoice :: "number \<Rightarrow> thrown + string option" \<comment> \<open>the \<open>invoice\<close> of the result, if it has one\<close>
  lud16_of :: "string \<Rightarrow> thrown + string option"
      \<comment> \<open>the search parameter \<open>lud16\<close> of the credential read as a URL\<close>

type_synonym 'a eff = "(thrown + 'a) \<times> event list"

definition digit_char :: "nat \<Rightarrow> char" where
  "digit_char d = ''0123456789'' ! d"

fun decimal :: "nat \<Rightarrow> string" where
  "decimal n = (if n < 10 then [digit_char n] else decimal (n div 10) @ [digit_char (n mod 10)])"

declare decimal.simps [simp del]

fun is_Nwc :: "event \<Rightarrow> bool" where
  \<comment> \<open>a call on the wallet-connect client\<close>
  "is_Nwc (Nwc name arg) = True"
| "is_Nwc _ = False"

section \<open>Wallet backend client (nwcli_client.ts)\<close>

definition safeJsonParse :: "world \<Rightarrow> string \<Rightarrow> json" where
  "safeJsonParse w v = (case JSON_parse w v of Some j \<Rightarrow> j | None \<Rightarrow> JStr v)"

definition request :: "world \<Rightarrow> string \<Rightarrow> string \<Rightarrow> json option \<Rightarrow> json eff" where
  "request w path method body =
     (case buildBaseUrl w of
        Inl e \<Rightarrow> (Inl e, [])
      | Inr base \<Rightarrow>
          let url = base @ (if startsWith path ''/'' then path else ''/'' @ path);
              pre = [Log ''[nwcli] request'', Http method url body]
          in (case http_fetch w method url body of
                Inl e \<Rightarrow> (Inl e, pre @ [LogErr ''[nwcli] error'' e])
              | Inr response \<Rightarrow>
                  let data = (if r_text response \<noteq> [] then safeJsonParse w (r_text response) else JNull);
                      evs = pre @ [Log ''[nwcli] response'']
                  in if \<not> r_ok response
                     then let error = ErrorObj (''[nwcli] '' @ decimal (r_status response) @ '' ''
                                                 @ r_statusText response) data
                          in (Inl error, evs @ [LogErr ''[nwcli] error'' error])
                     else (Inr data, evs)))"

definition nwcli_fetchBalance :: "world \<Rightarrow> string \<Rightarrow> json eff" where
  "nwcli_fetchBalance w identifier =
     (let (r, evs) = request w (''/api/balance?nickname='' @ encodeURIComponent w identifier) ''GET'' None
      in (r, Called ''fetchBalance'' # evs))"


definition nwcli_payInvoice :: "world \<Rightarrow> string \<Rightarrow> string \<Rightarrow> json eff" where
  "nwcli_payInvoice w identifier invoice =
     (let (r, evs) = request w ''/api/payInvoice'' ''POST''
            (Some (JObj [(''nickname'', JStr identifier), (''invoice'', JStr invoice)]))
      in (r, Called ''payInvoice'' # evs))"

definition nwcli_payLnAddress :: "world \<Rightarrow> string \<Rightarrow> string \<Rightarrow> number \<Rightarrow> json eff" where
  "nwcli_payLnAddress w identifier lnAddress amountSats =
     (let (r, evs) = request w ''/api/payLnAddress'' ''POST''
            (Some (JObj [(''nickname'', JStr identifier), (''lnAddress'', JStr lnAddress),
                         (''amountSats'', JNum amountSats)]))
      in (r, Called ''payLnAddress'' # evs))"

definition nwcli_refreshLedger :: "world \<Rightarrow> string \<Rightarrow> json eff" where
  "nwcli_refreshLedger w identifier =
     (let (r, evs) = request w ''/api/refreshLedger'' ''POST'' (Some (JObj [(''nickname'', JStr identifier)]))
      in (r, Called ''refreshLedger'' # evs))"

section \<open>Wallet manager (wallet_manager.ts)\<close>

record PaymentResult =
  success :: bool
  receipt :: "string option"
  error :: "string option"

datatype WalletType = W_nwc | W_api

record WalletDetails =
  w_type :: WalletType
  w_npub :: string
  nwcUri :: "string option"
  lnAddress :: "string option"
  apiIdentifier :: "string option"
  apiSubAccountId :: "string option"
  apiLabel :: "string option"

text \<open>A row of the table \<open>user_wallets\<close>; a column that is \<open>NULL\<close> is \<open>None\<close>.\<close>

record wallet_row =
  wallet_type :: "string option"
  encrypted_nwc_string :: "string option"
  ln_address :: "string option"
  api_identifier :: "string option"
  api_subaccount_id :: "string option"
  api_label :: "string option"

type_synonym user_wallets = "string \<rightharpoonup> wallet_row"

definition nonempty :: "string option \<Rightarrow> string option" where
  \<comment> \<open>\<open>x ? String(x) : null\<close>\<close>
  "nonempty x = (case x of Some s \<Rightarrow> if s \<noteq> [] then Some s else None | None \<Rightarrow> None)"

definition loadWallet :: "world \<Rightarrow> user_wallets \<Rightarrow> string \<Rightarrow> thrown + WalletDetails option" where
  "loadWallet w db npub =
     (case db npub of
        None \<Rightarrow>
          let shared = trim (SHARED_NWC_STRING w)
          in if shared \<noteq> []
             then Inr (Some \<lparr> w_type = W_nwc, w_npub = npub, nwcUri = Some shared, lnAddress = None,
                               apiIdentifier = None, apiSubAccountId = None, apiLabel = None \<rparr>)
             else Inr None
      | Some row \<Rightarrow>
          let walletType = toLowerCase (case nonempty (wallet_type row) of Some s \<Rightarrow> s | None \<Rightarrow> [])
          in if walletType = ''nwc''
             then (case nonempty (encrypted_nwc_string row) of
                     None \<Rightarrow> Inr None
                   | Some encrypted \<Rightarrow>
                      (case decrypt w encrypted of
                         Inl e \<Rightarrow> Inl e
                       | Inr uri \<Rightarrow>
                           Inr (Some \<lparr> w_type = W_nwc, w_npub = npub, nwcUri = Some uri,
                                       lnAddress = nonempty (ln_address row),
                                       apiIdentifier = None, apiSubAccountId = None, apiLabel = None \<rparr>)))
             else if walletType = ''api''
             then (case nonempty (api_identifier row) of
                     None \<Rightarrow> Inr None
                   | Some identifier \<Rightarrow>
                       Inr (Some \<lparr> w_type = W_api, w_npub = npub, nwcUri = None,
                                   lnAddress = nonempty (ln_address row),
                                   apiIdentifier = Some identifier,
                                   apiSubAccountId = nonempty (api_subaccount_id row),
                                   apiLabel = nonempty (api_label row) \<rparr>))
             else Inr None)"



fun extractMessageFromError :: "thrown \<Rightarrow> string option" where
  "extractMessageFromError (ThrownStr s) = (if s = [] then None else Some s)"
| "extractMessageFromError (ErrorObj message data) =
     (case extractErrorMessage data of
        Some dataMessage \<Rightarrow> if dataMessage \<noteq> [] then Some dataMessage else Some message
      | None \<Rightarrow> Some message)"
| "extractMessageFromError ThrownOther = None"

fun message_of :: "thrown \<Rightarrow> string option" where
  \<comment> \<open>\<open>error?.message\<close>\<close>
  "message_of (ErrorObj message data) = Some message"
| "message_of _ = None"

definition or_else :: "string option \<Rightarrow> string \<Rightarrow> string" where
  \<comment> \<open>\<open>x || d\<close> on a string that may be missing\<close>
  "or_else x d = (case x of Some s \<Rightarrow> if s \<noteq> [] then s else d | None \<Rightarrow> d)"

definition msatsToSats :: "number option \<Rightarrow> number option" where
  "msatsToSats msats = (case msats of None \<Rightarrow> None | Some m \<Rightarrow> Some (Math_floor (js_div_pos m 1000)))"

definition sats_text :: "world \<Rightarrow> number \<Rightarrow> string" where
  \<comment> \<open>\<open>${msatsToSats(m)}\<close> for a number \<open>m\<close>\<close>
  "sats_text w m = (case msatsToSats (Some m) of Some s \<Rightarrow> String_of w s | None \<Rightarrow> ''null'')"

fun join :: "string \<Rightarrow> string list \<Rightarrow> string" where
  "join sep [] = []"
| "join sep [x] = x"
| "join sep (x # y # ys) = x @ sep @ join sep (y # ys)"

definition buildBalanceInsight ::
  "world \<Rightarrow> number option \<Rightarrow> number option \<Rightarrow> number option \<Rightarrow> string option" where
  "buildBalanceInsight w balanceMsats pendingMsats requestMsats =
     (let availableMsats =
            (case balanceMsats of
               Some b \<Rightarrow> Some (Math_max0 (js_sub b (case pendingMsats of Some p \<Rightarrow> p | None \<Rightarrow> Fin 0)))
             | None \<Rightarrow> None);
          parts =
            (case availableMsats of Some a \<Rightarrow> [''available '' @ sats_text w a @ '' sats''] | None \<Rightarrow> [])
            @ (case balanceMsats of Some b \<Rightarrow> [''balance '' @ sats_text w b @ '' sats''] | None \<Rightarrow> [])
            @ (case pendingMsats of Some p \<Rightarrow> [''pending '' @ sats_text w p @ '' sats''] | None \<Rightarrow> [])
            @ (case requestMsats of Some r \<Rightarrow> [''request '' @ sats_text w r @ '' sats''] | None \<Rightarrow> [])
      in if parts = [] then None else Some (''('' @ join '', '' parts @ '')''))"

definition decodeInvoiceMsats :: "world \<Rightarrow> string \<Rightarrow> number option \<times> event list" where
  "decodeInvoiceMsats w invoice =
     (case decodeBolt11 w (JStr invoice) of
        Inl e \<Rightarrow> (None, [LogErr ''[WalletManager] Failed to decode invoice amount'' e])
      | Inr amountValue \<Rightarrow>
         (case nonempty amountValue of
            None \<Rightarrow> (None, [])
          | Some v \<Rightarrow> let n = Number_of w v in (if Number_isFinite n then Some n else None, [])))"

definition refreshLedgerIfSupported :: "world \<Rightarrow> string option \<Rightarrow> unit eff" where
  "refreshLedgerIfSupported w identifier =
     (case nonempty identifier of
        None \<Rightarrow> (Inr (), [])
      | Some ident \<Rightarrow>
         (case nwcli_refreshLedger w ident of
            (Inl e, evs) \<Rightarrow> (Inr (), evs @ [LogErr ''[WalletManager] refreshLedger failed (non-fatal)'' e])
          | (Inr _, evs) \<Rightarrow> (Inr (), evs)))"

fun split_on :: "char \<Rightarrow> string \<Rightarrow> string list" where
  \<comment> \<open>\<open>s.split(c)\<close>\<close>
  "split_on c [] = [[]]"
| "split_on c (x # xs) =
     (if x = c then [] # split_on c xs
      else (case split_on c xs of p # ps \<Rightarrow> (x # p) # ps | [] \<Rightarrow> [[x]]))"

definition nth_opt :: "'a list \<Rightarrow> nat \<Rightarrow> 'a option" where
  "nth_opt xs i = (if i < length xs then Some (xs ! i) else None)"

definition String_opt :: "string option \<Rightarrow> string" where
  \<comment> \<open>\<open>String(v)\<close> for a string that may be \<open>undefined\<close>\<close>
  "String_opt v = (case v of Some s \<Rightarrow> s | None \<Rightarrow> ''undefined'')"

definition reason_or :: "world \<Rightarrow> json \<Rightarrow> string" where
  \<comment> \<open>\<open>${v.reason || 'Invalid response'}\<close>\<close>
  "reason_or w v = (if truthy (get v ''reason'') then String_of_json w (get v ''reason'') else ''Invalid response'')"

definition is_nullish :: "json \<Rightarrow> bool" where
  "is_nullish v = (v = JNull \<or> v = JUndefined)"

definition check_invoice_amount :: "world \<Rightarrow> json \<Rightarrow> number \<Rightarrow> json eff" where
  \<comment> \<open>the end of \<open>getInvoiceFromLnAddress\<close>: decode the invoice and compare the amounts as strings\<close>
  "check_invoice_amount w invoice amountMsats =
     (case decodeBolt11 w invoice of
        Inl e \<Rightarrow> (Inl e, [])
      | Inr invoiceAmountMsats \<Rightarrow>
          if String_opt invoiceAmountMsats \<noteq> String_of w amountMsats
          then (Inl (ErrorObj (''Invoice amount mismatch. Expected '' @ String_of w amountMsats
                               @ '', got '' @ String_opt invoiceAmountMsats) JUndefined), [])
          else (Inr invoice, [Log ''[LNURL] Successfully fetched and verified invoice.'']))"

definition request_invoice :: "world \<Rightarrow> json \<Rightarrow> number \<Rightarrow> json eff" where
  \<comment> \<open>the middle of \<open>getInvoiceFromLnAddress\<close>: the callback request for the amount\<close>
  "request_invoice w params amountSats =
     (let amountMsats = js_mul amountSats (Fin 1000)
      in case callback_URL w (get params ''callback'') (String_of w amountMsats) of
           Inl e \<Rightarrow> (Inl e, [])
         | Inr callbackUrl \<Rightarrow>
             let evs = [Log ''[LNURL] Requesting invoice'', Fetch callbackUrl]
             in (case fetch_json w callbackUrl of
                   Inl e \<Rightarrow> (Inl e, evs)
                 | Inr invoiceData \<Rightarrow>
                     if is_nullish invoiceData then (Inl (ErrorObj (null_access w) JUndefined), evs)
                     else if get invoiceData ''status'' = JStr ''ERROR'' \<or> \<not> truthy (get invoiceData ''pr'')
                     then (Inl (ErrorObj (''Failed to get invoice: '' @ reason_or w invoiceData) JUndefined), evs)
                     else (let (r, evs') = check_invoice_amount w (get invoiceData ''pr'') amountMsats
                           in (r, evs @ evs'))))"

definition getInvoiceFromLnAddress :: "world \<Rightarrow> string \<Rightarrow> number \<Rightarrow> json eff" where
  "getInvoiceFromLnAddress w address amountSats =
     (let parts = split_on CHR ''@'' address;
          name = nonempty (nth_opt parts 0);
          domain = nonempty (nth_opt parts 1);
          evs0 = [Log ''[LNURL] Getting invoice'']
      in case (name, domain) of
           (Some name, Some domain) \<Rightarrow>
             (case new_URL w (''https://'' @ domain @ ''/.well-known/lnurlp/'' @ name) of
                Inl e \<Rightarrow> (Inl e, evs0)
              | Inr lnurlpUrl \<Rightarrow>
                  let evs1 = evs0 @ [Log ''[LNURL] Fetching params'', Fetch lnurlpUrl]
                  in (case fetch_json w lnurlpUrl of
                        Inl e \<Rightarrow> (Inl e, evs1)
                      | Inr params \<Rightarrow>
                          if is_nullish params then (Inl (ErrorObj (null_access w) JUndefined), evs1)
                          else if get params ''status'' = JStr ''ERROR'' \<or> get params ''tag'' \<noteq> JStr ''payRequest''
                          then (Inl (ErrorObj (''LNURL-pay failed: '' @ reason_or w params) JUndefined), evs1)
                          else (let (r, evs2) = request_invoice w params amountSats
                                in (r, evs1 @ evs2))))
         | _ \<Rightarrow> (Inl (ErrorObj ''Invalid Lightning Address format.'' JUndefined), evs0))"

text \<open>A pending payment, as the pending store hands it over.\<close>

datatype payment_type = ln_address_payment | ln_invoice_payment

record PendingPayment =
  pp_npub :: string
  pp_type :: payment_type
  pp_lnAddress :: "string option"
  pp_amount :: "number option"
  pp_lnInvoice :: "string option"

definition truthy_amount :: "number option \<Rightarrow> number option" where
  \<comment> \<open>the amount when it is truthy: present, not zero and not \<open>NaN\<close>\<close>
  "truthy_amount a = (case a of Some n \<Rightarrow> if truthy (JNum n) then Some n else None | None \<Rightarrow> None)"

definition failed :: "string \<Rightarrow> PaymentResult" where
  \<comment> \<open>\<open>{ success: false, error }\<close>\<close>
  "failed msg = \<lparr> success = False, receipt = None, error = Some msg \<rparr>"

definition nwc_pay :: "world \<Rightarrow> json \<Rightarrow> PaymentResult eff" where
  \<comment> \<open>\<open>client.payInvoice(invoice)\<close> and the reading of its result\<close>
  "nwc_pay w invoice =
     (case nwc_payInvoice w invoice of
        Inl e \<Rightarrow> (Inl e, [Nwc ''payInvoice'' invoice])
      | Inr preimage \<Rightarrow>
         (case nonempty preimage of
            Some p \<Rightarrow> (Inr \<lparr> success = True, receipt = Some p, error = None \<rparr>, [Nwc ''payInvoice'' invoice])
          | None \<Rightarrow> (Inr (failed ''Payment was rejected or failed.''), [Nwc ''payInvoice'' invoice])))"

definition nwc_payment_body :: "world \<Rightarrow> string \<Rightarrow> PendingPayment \<Rightarrow> PaymentResult eff" where
  \<comment> \<open>the \<open>try\<close> block of the \<open>nwc\<close> branch of \<open>makePayment\<close>\<close>
  "nwc_payment_body w uri details =
     (case nwc_connect w uri of
        Inl e \<Rightarrow> (Inl e, [])
      | Inr _ \<Rightarrow>
          if pp_type details = ln_address_payment
          then (case (nonempty (pp_lnAddress details), truthy_amount (pp_amount details)) of
                  (Some address, Some amount) \<Rightarrow>
                    (case getInvoiceFromLnAddress w address amount of
                       (Inl e, evs) \<Rightarrow> (Inl e, evs)
                     | (Inr invoice, evs) \<Rightarrow> (let (r, evs') = nwc_pay w invoice in (r, evs @ evs')))
                | _ \<Rightarrow> (Inr (failed ''Missing lnAddress or amount''), []))
          else nwc_pay w (case pp_lnInvoice details of Some i \<Rightarrow> JStr i | None \<Rightarrow> JUndefined))"

definition makePayment_nwc :: "world \<Rightarrow> WalletDetails \<Rightarrow> PendingPayment \<Rightarrow> PaymentResult eff" where
  "makePayment_nwc w wallet details =
     (case nonempty (nwcUri wallet) of
        None \<Rightarrow> (Inr (failed (''Wallet for '' @ pp_npub details @ '' is missing NWC credentials.'')), [])
      | Some uri \<Rightarrow>
         (case nwc_payment_body w uri details of
            (Inr r, evs) \<Rightarrow> (Inr r, evs)
          | (Inl e, evs) \<Rightarrow>
              (Inr (failed (or_else (message_of e) ''An unknown error occurred.'')),
               evs @ [LogErr ''[WalletManager] makePayment failed'' e])))"

text \<open>The balance snapshot taken before an HTTP-wallet payment: balance and pending amount.\<close>

type_synonym snapshot = "(number option \<times> number option) option"

definition appendBalanceContext :: "world \<Rightarrow> snapshot \<Rightarrow> string \<Rightarrow> number option \<Rightarrow> string" where
  "appendBalanceContext w balanceSnapshot message requestMsats =
     (case buildBalanceInsight w
             (case balanceSnapshot of Some (b, p) \<Rightarrow> b | None \<Rightarrow> None)
             (case balanceSnapshot of Some (b, p) \<Rightarrow> p | None \<Rightarrow> None)
             requestMsats of
        Some insight \<Rightarrow> if insight \<noteq> [] then message @ '' '' @ insight else message
      | None \<Rightarrow> message)"

definition balance_snapshot :: "world \<Rightarrow> string \<Rightarrow> snapshot \<times> event list" where
  \<comment> \<open>the second \<open>try\<close> block of the \<open>api\<close> branch of \<open>makePayment\<close>\<close>
  "balance_snapshot w identifier =
     (case nwcli_fetchBalance w identifier of
        (Inr balanceResponse, evs) \<Rightarrow>
          (Some (extractMsats (Number_of w) balanceResponse, extractPendingMsats (Number_of w) balanceResponse),
           evs @ [Log ''[WalletManager] API wallet snapshot before payment''])
      | (Inl balanceError, evs) \<Rightarrow>
          (None, evs @ [LogErr ''[WalletManager] Failed to fetch balance before payment'' balanceError]))"

definition api_result :: "world \<Rightarrow> snapshot \<Rightarrow> json \<Rightarrow> number option \<Rightarrow> PaymentResult" where
  \<comment> \<open>the reading of the backend's response to a payment\<close>
  "api_result w balanceSnapshot response requestMsats =
     (let interpreted = interpretNwcliPaymentResponse (Number_of w) response
      in if i_success interpreted
         then \<lparr> success = True, receipt = i_preimage interpreted, error = None \<rparr>
         else failed (appendBalanceContext w balanceSnapshot
                        (or_else (extractErrorMessage response) ''Payment was rejected or failed.'')
                        requestMsats))"

definition api_payment_body ::
  "world \<Rightarrow> string \<Rightarrow> PendingPayment \<Rightarrow> snapshot \<Rightarrow> number option \<Rightarrow> number option
     \<Rightarrow> PaymentResult eff" where
  \<comment> \<open>the last \<open>try\<close> block of the \<open>api\<close> branch of \<open>makePayment\<close>\<close>
  "api_payment_body w identifier details balanceSnapshot lnAddressRequestMsats lnInvoiceRequestMsats =
     (if pp_type details = ln_address_payment
      then (case (nonempty (pp_lnAddress details), truthy_amount (pp_amount details)) of
              (Some address, Some amount) \<Rightarrow>
                (case nwcli_payLnAddress w identifier address amount of
                   (Inl e, evs) \<Rightarrow> (Inl e, evs)
                 | (Inr response, evs) \<Rightarrow>
                     (Inr (api_result w balanceSnapshot response lnAddressRequestMsats), evs))
            | _ \<Rightarrow> (Inr (failed ''Missing lnAddress or amount''), []))
      else (case nonempty (pp_lnInvoice details) of
              None \<Rightarrow> (Inr (failed ''Missing invoice for payment.''), [])
            | Some invoice \<Rightarrow>
                (case nwcli_payInvoice w identifier invoice of
                   (Inl e, evs) \<Rightarrow> (Inl e, evs)
                 | (Inr response, evs) \<Rightarrow>
                     (Inr (api_result w balanceSnapshot response lnInvoiceRequestMsats), evs))))"

definition api_pay :: "world \<Rightarrow> string \<Rightarrow> PendingPayment \<Rightarrow> snapshot \<Rightarrow> PaymentResult eff" where
  \<comment> \<open>the \<open>api\<close> branch of \<open>makePayment\<close> from the snapshot on\<close>
  "api_pay w identifier details balanceSnapshot =
     (let lnAddressRequestMsats =
            (if pp_type details = ln_address_payment
             then (case truthy_amount (pp_amount details) of
                     Some amount \<Rightarrow> Some (js_mul amount (Fin 1000))
                   | None \<Rightarrow> None)
             else None);
          (lnInvoiceRequestMsats, evs0) =
            (if pp_type details = ln_invoice_payment
             then (case nonempty (pp_lnInvoice details) of
                     Some invoice \<Rightarrow> decodeInvoiceMsats w invoice
                   | None \<Rightarrow> (None, []))
             else (None, []))
      in case api_payment_body w identifier details balanceSnapshot
                lnAddressRequestMsats lnInvoiceRequestMsats of
           (Inr r, evs) \<Rightarrow> (Inr r, evs0 @ evs)
         | (Inl e, evs) \<Rightarrow>
             let requestMsats = (if pp_type details = ln_address_payment
                                 then lnAddressRequestMsats else lnInvoiceRequestMsats);
                 reason = or_else (extractMessageFromError e) ''An unknown error occurred.''
             in (Inr (failed (appendBalanceContext w balanceSnapshot reason requestMsats)),
                 evs0 @ evs @ [LogErr ''[WalletManager] makePayment failed'' e]))"

definition makePayment_api :: "world \<Rightarrow> WalletDetails \<Rightarrow> PendingPayment \<Rightarrow> PaymentResult eff" where
  "makePayment_api w wallet details =
     (case nonempty (apiIdentifier wallet) of
        None \<Rightarrow> (Inr (failed (''Wallet for '' @ pp_npub details @ '' is missing API identifier.'')), [])
      | Some identifier \<Rightarrow>
          let (refreshed, evs0) = refreshLedgerIfSupported w (Some identifier);
              evs0' = (case refreshed of
                         Inl e \<Rightarrow> evs0 @ [LogErr ''[WalletManager] refreshLedger before payment failed'' e]
                       | Inr _ \<Rightarrow> evs0);
              (balanceSnapshot, evs1) = balance_snapshot w identifier;
              (r, evs2) = api_pay w identifier details balanceSnapshot
          in (r, evs0' @ evs1 @ evs2))"

definition makePayment :: "world \<Rightarrow> user_wallets \<Rightarrow> PendingPayment \<Rightarrow> PaymentResult eff" where
  "makePayment w db details =
     (case loadWallet w db (pp_npub details) of
        Inl e \<Rightarrow> (Inl e, [Log ''[WalletManager] Processing payment''])
      | Inr None \<Rightarrow>
          (Inr (failed (''No wallet found for user '' @ pp_npub details @ ''.'')),
           [Log ''[WalletManager] Processing payment''])
      | Inr (Some wallet) \<Rightarrow>
          let (r, evs) = (if w_type wallet = W_nwc then makePayment_nwc w wallet details
                          else makePayment_api w wallet details)
          in (r, Log ''[WalletManager] Processing payment'' # evs))"











definition validateNwcString :: "world \<Rightarrow> string \<Rightarrow> bool \<times> event list" where
  "validateNwcString w uri =
     (case (case nwc_connect w uri of
              Inl e \<Rightarrow> (Inl e, [])
            | Inr _ \<Rightarrow> (nwc_getBalance w, [Nwc ''getBalance'' JUndefined])) of
        (Inr _, evs) \<Rightarrow> (True, Log ''[WalletManager] Validating NWC URI...'' # evs
                                 @ [Log ''[WalletManager] NWC URI is valid.''])
      | (Inl e, evs) \<Rightarrow> (False, Log ''[WalletManager] Validating NWC URI...'' # evs
                                  @ [LogErr ''[WalletManager] NWC URI validation failed'' e]))"

section \<open>Sample collaborators\<close>

text \<open>
  Concrete collaborators on which the functions can be run: numbers print in decimal when
  they are natural numbers, and every call to the outside fails unless a world says
  otherwise.
\<close>

definition print_number :: "number \<Rightarrow> string" where
  "print_number n = (case n of
       Fin r \<Rightarrow> if 0 \<le> r \<and> of_int \<lfloor>r\<rfloor> = r then decimal (nat \<lfloor>r\<rfloor>) else ''#''
     | NaN \<Rightarrow> ''NaN'' | PosInf \<Rightarrow> ''Infinity'' | NegInf \<Rightarrow> ''-Infinity'')"

definition offline :: thrown where
  "offline = ErrorObj ''fetch failed'' JUndefined"

definition offline_world :: world where
  "offline_world =
     \<lparr> Number_of = (\<lambda>s. NaN),
       String_of = print_number,
       String_of_json = (\<lambda>v. ''[object Object]''),
       null_access = ''null is not an object'',
       SHARED_NWC_STRING = [],
       decrypt = (\<lambda>s. Inr s),
       buildBaseUrl = Inr ''http://127.0.0.1'',
       http_fetch = (\<lambda>method url body. Inl offline),
       JSON_parse = (\<lambda>s. None),
       encodeURIComponent = (\<lambda>s. s),
       new_URL = (\<lambda>s. Inr s),
       callback_URL = (\<lambda>callback amount. Inl offline),
       fetch_json = (\<lambda>url. Inl offline),
       decodeBolt11 = (\<lambda>invoice. Inl offline),
       nwc_connect = (\<lambda>uri. Inl offline),
       nwc_payInvoice = (\<lambda>invoice. Inl offline),
       nwc_getBalance = Inl offline,
       nwc_makeInvoice = (\<lambda>amount. Inl offline),
       lud16_of = (\<lambda>uri. Inl offline) \<rparr>"



definition parse_number :: "string \<Rightarrow> number" where
  \<comment> \<open>decimal digits denote their number, the empty string zero\<close>
  "parse_number s =
     (if list_all (\<lambda>c. 48 \<le> charCode c \<and> charCode c \<le> 57) s
      then Fin (of_int (foldl (\<lambda>a c. 10 * a + (int (charCode c) - 48)) 0 s))
      else NaN)"

definition lnurl_world :: "string \<Rightarrow> world" where
  \<comment> \<open>the discovery protocol answers, the invoice decodes to the given amount, the wallet pays\<close>
  "lnurl_world decoded = offline_world
     \<lparr> Number_of := parse_number,
       callback_URL := (\<lambda>callback amount. Inr (''https://pay.example/cb?amount='' @ amount)),
       fetch_json := (\<lambda>url. if url = ''https://pay.example/.well-known/lnurlp/alice''
                            then Inr (JObj [(''tag'', JStr ''payRequest''),
                                            (''callback'', JStr ''https://pay.example/cb'')])
                            else Inr (JObj [(''pr'', JStr ''lnbc70n1invoice'')])),
       decodeBolt11 := (\<lambda>invoice. Inr (Some decoded)),
       nwc_connect := (\<lambda>uri. Inr ()),
       nwc_payInvoice := (\<lambda>invoice. Inr (Some hex64_a)) \<rparr>"

definition nwc_row :: wallet_row where
  "nwc_row = \<lparr> wallet_type = Some ''nwc'', encrypted_nwc_string = Some ''nostr+walletconnect://abc'',
               ln_address = None, api_identifier = None, api_subaccount_id = None, api_label = None \<rparr>"

definition api_row :: wallet_row where
  "api_row = \<lparr> wallet_type = Some ''api'', encrypted_nwc_string = None, ln_address = None,
               api_identifier = Some ''beacon-sub-1'', api_subaccount_id = Some ''17'',
               api_label = Some ''beacon-web-alice1'' \<rparr>"

definition pay_alice :: PendingPayment where
  \<comment> \<open>7 sats to \<open>alice@pay.example\<close>, on behalf of \<open>npub1bob\<close>\<close>
  "pay_alice = \<lparr> pp_npub = ''npub1bob'', pp_type = ln_address_payment,
                 pp_lnAddress = Some ''alice@pay.example'', pp_amount = Some (Fin 7),
                 pp_lnInvoice = None \<rparr>"

definition paid_response :: http_response where
  "paid_response = \<lparr> r_ok = True, r_status = 200, r_statusText = ''OK'', r_text = ''true'' \<rparr>"

definition api_world :: world where
  \<comment> \<open>the backend pays invoices and fails every other request\<close>
  "api_world = offline_world
     \<lparr> http_fetch := (\<lambda>method url body. if url = ''http://127.0.0.1/api/payInvoice''
                                         then Inr paid_response else Inl offline),
       JSON_parse := (\<lambda>s. if s = ''true'' then Some (JBool True) else None) \<rparr>"

definition well_reported :: "PaymentResult \<Rightarrow> bool" where
  \<comment> \<open>a payment result that is a success or carries a non-empty error string\<close>
  "well_reported r = (success r \<or> (\<exists>m. error r = Some m \<and> m \<noteq> []))"

section \<open>Verified properties\<close>

subsection \<open>Rounding\<close>

text \<open>An integer below \<open>2\<^sup>5\<^sup>3\<close> in magnitude is a binary64 value: rounding leaves it alone.\<close>

lemma bit_length_pos: "0 < n \<Longrightarrow> 0 < bit_length n"
  by (subst bit_length.simps) simp

lemma bit_length_le: "n < 2 ^ k \<Longrightarrow> bit_length n \<le> k"
proof (induction k arbitrary: n)
  case 0
  then show ?case by (subst bit_length.simps) simp
next
  case (Suc k)
  show ?case
  proof (cases "n \<le> 0")
    case True
    then show ?thesis by (subst bit_length.simps) simp
  next
    case False
    from Suc.prems have "n div 2 < 2 ^ k" by simp
    then have "bit_length (n div 2) \<le> k" by (rule Suc.IH)
    with False show ?thesis by (subst bit_length.simps) simp
  qed
qed

lemma pow2_nonpos: "e \<le> 0 \<Longrightarrow> pow2 e = 1 / 2 ^ nat (- e)"
  by (cases "e = 0") (simp_all add: pow2_def)

lemma round_half_even_of_int: "round_half_even (of_int k) = k"
  by (simp add: round_half_even_def)

lemma pow2_1024_gt: "a < 2 ^ 53 \<Longrightarrow> \<not> pow2 1024 \<le> (a::rat)"
proof -
  assume a: "a < 2 ^ 53"
  have "(2::rat) ^ 53 \<le> 2 ^ 1024" by (rule power_increasing) simp_all
  with a show ?thesis by (simp add: pow2_def)
qed

lemma round_double_of_int:
  assumes "\<bar>n\<bar> < 2 ^ 53"
  shows "round_double (of_int n) = Fin (of_int n)"
proof (cases "n = 0")
  case True
  then show ?thesis by (simp add: round_double_def)
next
  case False
  define a where "a = \<bar>n\<bar>"
  define e where "e = int (bit_length a) - 1"
  have apos: "0 < a" using False by (simp add: a_def)
  have e0: "0 \<le> e" using bit_length_pos [OF apos] by (simp add: e_def)
  have e52: "e \<le> 52" using bit_length_le [of a 53] assms by (simp add: e_def a_def)
  have il: "ilog2 (of_int a) = e" using apos by (simp add: ilog2_def e_def)
  have mx: "max e (- 1022) = e" using e0 by simp
  define k where "k = nat (52 - e)"
  have u: "pow2 (e - 52) = 1 / 2 ^ k" using e52 by (simp add: pow2_nonpos k_def)
  have q: "of_int a / pow2 (e - 52) = (of_int (a * 2 ^ k) :: rat)" by (simp add: u)
  have r: "of_int (round_half_even (of_int a / pow2 (e - 52))) * pow2 (e - 52) = (of_int a :: rat)"
    by (simp only: q round_half_even_of_int) (simp add: u)
  have nb: "\<not> pow2 1024 \<le> (of_int a :: rat)"
  proof (rule pow2_1024_gt)
    from assms have "a < 2 ^ 53" by (simp add: a_def)
    then have "(of_int a :: rat) < of_int (2 ^ 53)" by (simp only: of_int_less_iff)
    then show "(of_int a :: rat) < 2 ^ 53" by simp
  qed
  have abs: "\<bar>of_int n :: rat\<bar> = of_int a" by (simp add: a_def)
  have "round_double (of_int n) = Fin (if 0 < (of_int n :: rat) then of_int a else - of_int a)"
    using False unfolding round_double_def Let_def abs il mx r by (simp add: nb)
  also have "(if 0 < (of_int n :: rat) then (of_int a :: rat) else - of_int a) = of_int n"
    by (simp add: a_def)
  finally show ?thesis .
qed

lemma seven_sats: "js_mul (Fin 7) (Fin 1000) = Fin 7000"
  using round_double_of_int [of 7000] by simp

subsection \<open>The error response and the bare pay result\<close>

lemma findSuccessFlag_error_response:
  "findSuccessFlag (JObj [(''status'', JStr ''error''), (''reason'', JStr ''insufficient funds'')]) = Some False"
  by code_simp

lemma findSuccessFlag_bare_payResult:
  "findSuccessFlag (JObj [(''result'', JObj [(''payResult'', JObj [])])]) = None"
  by code_simp

lemma hasPayResult_bare_payResult:
  "hasPayResult (JObj [(''result'', JObj [(''payResult'', JObj [])])])"
  by code_simp

text \<open>
  Claim C4.  On the response \<open>{status: "error", reason: "insufficient funds"}\<close> the error
  extractor returns the string \<open>insufficient funds\<close>, the success extractor
  \<open>findSuccessFlag\<close> returns \<open>false\<close>, and so \<open>interpretNwcliPaymentResponse\<close> reports
  no success, whatever \<open>Number\<close> does on strings.
\<close>

theorem error_response_extracted:
  "extractErrorMessage (JObj [(''status'', JStr ''error''), (''reason'', JStr ''insufficient funds'')])
     = Some ''insufficient funds''
   \<and> findSuccessFlag (JObj [(''status'', JStr ''error''), (''reason'', JStr ''insufficient funds'')])
     = Some False
   \<and> i_success (interpretNwcliPaymentResponse Number
        (JObj [(''status'', JStr ''error''), (''reason'', JStr ''insufficient funds'')])) = False"
proof (intro conjI)
  show "extractErrorMessage (JObj [(''status'', JStr ''error''), (''reason'', JStr ''insufficient funds'')])
     = Some ''insufficient funds''"
    by code_simp
  show "findSuccessFlag (JObj [(''status'', JStr ''error''), (''reason'', JStr ''insufficient funds'')])
     = Some False"
    by (rule findSuccessFlag_error_response)
  show "i_success (interpretNwcliPaymentResponse Number
        (JObj [(''status'', JStr ''error''), (''reason'', JStr ''insufficient funds'')])) = False"
    by (simp only: interpretNwcliPaymentResponse_def Let_def findSuccessFlag_error_response) simp
qed

text \<open>
  Claim C5.  The response \<open>{result: {payResult: {}}}\<close> carries no boolean \<open>success\<close> and no
  string \<open>status\<close> or \<open>state\<close>: \<open>findSuccessFlag\<close> finds nothing, \<open>hasPayResult\<close> holds, and
  \<open>interpretNwcliPaymentResponse\<close> reports success.
\<close>

theorem bare_payResult_is_success:
  "findSuccessFlag (JObj [(''result'', JObj [(''payResult'', JObj [])])]) = None
   \<and> hasPayResult (JObj [(''result'', JObj [(''payResult'', JObj [])])])
   \<and> i_success (interpretNwcliPaymentResponse Number (JObj [(''result'', JObj [(''payResult'', JObj [])])]))"
proof (intro conjI)
  show "findSuccessFlag (JObj [(''result'', JObj [(''payResult'', JObj [])])]) = None"
    by (rule findSuccessFlag_bare_payResult)
  show "hasPayResult (JObj [(''result'', JObj [(''payResult'', JObj [])])])"
    by (rule hasPayResult_bare_payResult)
  show "i_success (interpretNwcliPaymentResponse Number (JObj [(''result'', JObj [(''payResult'', JObj [])])]))"
    by (simp only: interpretNwcliPaymentResponse_def Let_def findSuccessFlag_bare_payResult
          hasPayResult_bare_payResult) simp
qed

subsection \<open>The proof extractor\<close>











subsection \<open>Wallet resolution without a stored row\<close>



subsection \<open>Invoice verification on the address path\<close>

lemma check_invoice_amount_Inr:
  "check_invoice_amount w invoice m = (Inr x, evs) \<Longrightarrow>
     x = invoice \<and> (\<exists>v. decodeBolt11 w invoice = Inr v \<and> String_opt v = String_of w m)"
  by (auto simp: check_invoice_amount_def split: sum.splits if_splits)

lemma check_invoice_amount_mismatch:
  "decodeBolt11 w invoice = Inr v \<Longrightarrow> String_opt v \<noteq> String_of w m \<Longrightarrow>
     check_invoice_amount w invoice m
       = (Inl (ErrorObj (''Invoice amount mismatch. Expected '' @ String_of w m
                          @ '', got '' @ String_opt v) JUndefined), [])"
  by (simp add: check_invoice_amount_def)

lemma request_invoice_Inr:
  "request_invoice w params amt = (Inr x, evs) \<Longrightarrow>
     \<exists>v. decodeBolt11 w x = Inr v \<and> String_opt v = String_of w (js_mul amt (Fin 1000))"
  by (auto simp: request_invoice_def Let_def split: sum.splits if_splits prod.splits
      dest!: check_invoice_amount_Inr)

lemma getInvoiceFromLnAddress_Inr:
  "getInvoiceFromLnAddress w address amt = (Inr x, evs) \<Longrightarrow>
     \<exists>v. decodeBolt11 w x = Inr v \<and> String_opt v = String_of w (js_mul amt (Fin 1000))"
  by (auto simp: getInvoiceFromLnAddress_def Let_def split: sum.splits if_splits prod.splits option.splits
      dest!: request_invoice_Inr)

lemma check_invoice_amount_events:
  "check_invoice_amount w invoice m = (r, evs) \<Longrightarrow> \<not> list_ex is_Nwc evs"
  by (auto simp: check_invoice_amount_def split: sum.splits if_splits)

lemma request_invoice_events:
  "request_invoice w params amt = (r, evs) \<Longrightarrow> \<not> list_ex is_Nwc evs"
  by (auto simp: request_invoice_def Let_def split: sum.splits prod.splits if_splits
      dest: check_invoice_amount_events)

lemma getInvoiceFromLnAddress_events:
  "getInvoiceFromLnAddress w address amt = (r, evs) \<Longrightarrow> \<not> list_ex is_Nwc evs"
  by (auto simp: getInvoiceFromLnAddress_def Let_def
      split: sum.splits prod.splits option.splits if_splits
      dest: request_invoice_events)

lemma request_events:
  "request w path method body = (r, evs) \<Longrightarrow> \<not> list_ex is_Nwc evs"
  by (auto simp: request_def Let_def split: sum.splits if_splits)

lemma nwcli_events:
  "nwcli_fetchBalance w i = (r, evs) \<Longrightarrow> \<not> list_ex is_Nwc evs"
  "nwcli_payInvoice w i invoice = (r, evs) \<Longrightarrow> \<not> list_ex is_Nwc evs"
  "nwcli_payLnAddress w i address amt = (r, evs) \<Longrightarrow> \<not> list_ex is_Nwc evs"
  "nwcli_refreshLedger w i = (r, evs) \<Longrightarrow> \<not> list_ex is_Nwc evs"
  by (auto simp: nwcli_fetchBalance_def nwcli_payInvoice_def nwcli_payLnAddress_def
      nwcli_refreshLedger_def split: prod.splits dest: request_events)

lemma refreshLedgerIfSupported_events:
  "refreshLedgerIfSupported w i = (r, evs) \<Longrightarrow> \<not> list_ex is_Nwc evs"
  by (auto simp: refreshLedgerIfSupported_def split: option.splits prod.splits sum.splits
      dest: nwcli_events)

lemma balance_snapshot_events:
  "balance_snapshot w i = (s, evs) \<Longrightarrow> \<not> list_ex is_Nwc evs"
  by (auto simp: balance_snapshot_def split: prod.splits sum.splits dest: nwcli_events)

lemma decodeInvoiceMsats_events:
  "decodeInvoiceMsats w invoice = (n, evs) \<Longrightarrow> \<not> list_ex is_Nwc evs"
  by (auto simp: decodeInvoiceMsats_def Let_def split: sum.splits option.splits)

lemma api_payment_body_events:
  "api_payment_body w i details snap a b = (r, evs) \<Longrightarrow> \<not> list_ex is_Nwc evs"
  by (auto simp: api_payment_body_def split: if_splits option.splits prod.splits sum.splits
      dest: nwcli_events)

lemma api_pay_events:
  "api_pay w i details snap = (r, evs) \<Longrightarrow> \<not> list_ex is_Nwc evs"
  by (auto simp: api_pay_def Let_def split: if_splits option.splits prod.splits sum.splits
      dest: api_payment_body_events decodeInvoiceMsats_events)

lemma makePayment_api_events:
  "makePayment_api w wallet details = (r, evs) \<Longrightarrow> \<not> list_ex is_Nwc evs"
  by (auto simp: makePayment_api_def Let_def split: option.splits prod.splits sum.splits
      dest: api_pay_events balance_snapshot_events refreshLedgerIfSupported_events)

lemma nwc_pay_events:
  "nwc_pay w invoice = (r, evs) \<Longrightarrow> evs = [Nwc ''payInvoice'' invoice]"
  by (auto simp: nwc_pay_def split: sum.splits option.splits)

lemma Nwc_mem_is_Nwc: "Nwc n a \<in> set evs \<Longrightarrow> list_ex is_Nwc evs"
  by (auto simp: list_ex_iff intro!: bexI [of _ "Nwc n a"])

lemma nwc_payment_body_paid:
  assumes "pp_type details = ln_address_payment"
    and "nwc_payment_body w uri details = (r, evs)"
    and "Nwc ''payInvoice'' invoice \<in> set evs"
  shows "\<exists>v amount. pp_amount details = Some amount \<and> decodeBolt11 w invoice = Inr v
            \<and> String_opt v = String_of w (js_mul amount (Fin 1000))"
proof (cases "nwc_connect w uri")
  case (Inl e)
  with assms show ?thesis by (simp add: nwc_payment_body_def)
next
  case (Inr u)
  show ?thesis
  proof (cases "nonempty (pp_lnAddress details)")
    case None
    with Inr assms show ?thesis by (simp add: nwc_payment_body_def)
  next
    case (Some address)
    show ?thesis
    proof (cases "truthy_amount (pp_amount details)")
      case None
      with Some Inr assms show ?thesis by (simp add: nwc_payment_body_def)
    next
      case amt: (Some amount)
      then have pa: "pp_amount details = Some amount"
        by (auto simp: truthy_amount_def split: option.splits if_splits)
      obtain g gevs where g: "getInvoiceFromLnAddress w address amount = (g, gevs)"
        by (cases "getInvoiceFromLnAddress w address amount")
      have nog: "Nwc ''payInvoice'' invoice \<notin> set gevs"
        using getInvoiceFromLnAddress_events [OF g] Nwc_mem_is_Nwc by blast
      show ?thesis
      proof (cases g)
        case (Inl e)
        with g amt Some Inr assms nog show ?thesis by (simp add: nwc_payment_body_def)
      next
        case found: (Inr x)
        obtain p pevs where p: "nwc_pay w x = (p, pevs)" by (cases "nwc_pay w x")
        from found g amt Some Inr assms(1,2) p have "evs = gevs @ pevs"
          by (simp add: nwc_payment_body_def)
        with assms(3) nog nwc_pay_events [OF p] have "invoice = x" by simp
        with getInvoiceFromLnAddress_Inr [of w address amount x gevs] g found pa
        show ?thesis by simp
      qed
    qed
  qed
qed

theorem paid_invoice_matches_request:
  assumes "pp_type details = ln_address_payment"
    and "Nwc ''payInvoice'' invoice \<in> set (snd (makePayment w db details))"
  shows "\<exists>v amount. pp_amount details = Some amount \<and> decodeBolt11 w invoice = Inr v
            \<and> String_opt v = String_of w (js_mul amount (Fin 1000))"
proof (cases "loadWallet w db (pp_npub details)")
  case (Inl e)
  with assms show ?thesis by (simp add: makePayment_def)
next
  case (Inr found)
  show ?thesis
  proof (cases found)
    case None
    with Inr assms show ?thesis by (simp add: makePayment_def)
  next
    case (Some wallet)
    show ?thesis
    proof (cases "w_type wallet")
      case W_api
      obtain r evs where a: "makePayment_api w wallet details = (r, evs)"
        by (cases "makePayment_api w wallet details")
      from makePayment_api_events [OF a] Nwc_mem_is_Nwc
      have "Nwc ''payInvoice'' invoice \<notin> set evs" by blast
      with a W_api Some Inr assms show ?thesis by (simp add: makePayment_def)
    next
      case W_nwc
      show ?thesis
      proof (cases "nonempty (nwcUri wallet)")
        case None
        with W_nwc Some Inr assms show ?thesis by (simp add: makePayment_def makePayment_nwc_def)
      next
        case uri: (Some uri)
        obtain r evs where b: "nwc_payment_body w uri details = (r, evs)"
          by (cases "nwc_payment_body w uri details")
        from b uri W_nwc Some Inr assms(2) have "Nwc ''payInvoice'' invoice \<in> set evs"
          by (cases r) (simp_all add: makePayment_def makePayment_nwc_def)
        with nwc_payment_body_paid [OF assms(1) b] show ?thesis by simp
      qed
    qed
  qed
qed

lemma makePayment_nwc_lookup_fails:
  assumes "pp_type details = ln_address_payment"
    and "nonempty (pp_lnAddress details) = Some address"
    and "truthy_amount (pp_amount details) = Some amount"
    and "fst (getInvoiceFromLnAddress w address amount) = Inl e"
  shows "(\<exists>msg. fst (makePayment_nwc w wallet details) = Inr (failed msg))
         \<and> \<not> list_ex is_Nwc (snd (makePayment_nwc w wallet details))"
proof (cases "nonempty (nwcUri wallet)")
  case None
  then show ?thesis by (auto simp: makePayment_nwc_def)
next
  case (Some uri)
  show ?thesis
  proof (cases "nwc_connect w uri")
    case (Inl c)
    with Some show ?thesis by (auto simp: makePayment_nwc_def nwc_payment_body_def)
  next
    case (Inr u)
    obtain g gevs where g: "getInvoiceFromLnAddress w address amount = (g, gevs)"
      by (cases "getInvoiceFromLnAddress w address amount")
    with assms(4) have "g = Inl e" by simp
    with g Inr Some assms(1-3) getInvoiceFromLnAddress_events [OF g]
    show ?thesis by (auto simp: makePayment_nwc_def nwc_payment_body_def)
  qed
qed

text \<open>Runs of the address lookup against sample collaborators.\<close>

lemma round_double_7000: "round_double 7000 = Fin 7000"
  using round_double_of_int [of 7000] by simp

lemma decimal_7000: "decimal 7000 = ''7000''"
  by (simp add: decimal.simps digit_char_def)

lemma print_7000: "print_number (Fin 7000) = ''7000''"
  by (simp add: print_number_def decimal_7000)

lemma lnurl_world_sel:
  "Number_of (lnurl_world d) = parse_number"
  "String_of (lnurl_world d) = print_number"
  "decrypt (lnurl_world d) = Inr"
  "new_URL (lnurl_world d) = Inr"
  "callback_URL (lnurl_world d) = (\<lambda>callback amount. Inr (''https://pay.example/cb?amount='' @ amount))"
  "fetch_json (lnurl_world d) = (\<lambda>url. if url = ''https://pay.example/.well-known/lnurlp/alice''
                            then Inr (JObj [(''tag'', JStr ''payRequest''),
                                            (''callback'', JStr ''https://pay.example/cb'')])
                            else Inr (JObj [(''pr'', JStr ''lnbc70n1invoice'')]))"
  "decodeBolt11 (lnurl_world d) = (\<lambda>invoice. Inr (Some d))"
  "nwc_connect (lnurl_world d) = (\<lambda>uri. Inr ())"
  "nwc_payInvoice (lnurl_world d) = (\<lambda>invoice. Inr (Some hex64_a))"
  "SHARED_NWC_STRING (lnurl_world d) = []"
  by (simp_all add: lnurl_world_def offline_world_def)

lemmas run_lookup =
  getInvoiceFromLnAddress_def request_invoice_def check_invoice_amount_def lnurl_world_sel
  nth_opt_def nonempty_def is_nullish_def field_def String_opt_def
  print_7000 round_double_7000 Let_def

lemma lookup_match:
  "getInvoiceFromLnAddress (lnurl_world ''7000'') ''alice@pay.example'' (Fin 7)
     = (Inr (JStr ''lnbc70n1invoice''),
        [Log ''[LNURL] Getting invoice'', Log ''[LNURL] Fetching params'',
         Fetch ''https://pay.example/.well-known/lnurlp/alice'',
         Log ''[LNURL] Requesting invoice'',
         Fetch ''https://pay.example/cb?amount=7000'',
         Log ''[LNURL] Successfully fetched and verified invoice.''])"
  by (simp add: run_lookup)

lemma load_bob:
  "loadWallet (lnurl_world d) [''npub1bob'' \<mapsto> nwc_row] ''npub1bob''
     = Inr (Some \<lparr> w_type = W_nwc, w_npub = ''npub1bob'', nwcUri = Some ''nostr+walletconnect://abc'',
                   lnAddress = None, apiIdentifier = None, apiSubAccountId = None, apiLabel = None \<rparr>)"
  by (simp add: loadWallet_def nwc_row_def lnurl_world_sel nonempty_def
      toLowerCase_def lower_char_def charCode_def)

lemma payment_after_match:
  "snd (makePayment (lnurl_world ''7000'') [''npub1bob'' \<mapsto> nwc_row] pay_alice)
     = [Log ''[WalletManager] Processing payment'',
        Log ''[LNURL] Getting invoice'', Log ''[LNURL] Fetching params'',
        Fetch ''https://pay.example/.well-known/lnurlp/alice'',
        Log ''[LNURL] Requesting invoice'',
        Fetch ''https://pay.example/cb?amount=7000'',
        Log ''[LNURL] Successfully fetched and verified invoice.'',
        Nwc ''payInvoice'' (JStr ''lnbc70n1invoice'')]"
  by (simp add: makePayment_def makePayment_nwc_def nwc_payment_body_def nwc_pay_def pay_alice_def
      truthy_amount_def nonempty_def load_bob lookup_match lnurl_world_sel hex64_a_def)
text \<open>
  Claim C3.  On the protocol-wallet path, \<open>getInvoiceFromLnAddress\<close> compares the amount
  section of the decoded invoice with the requested amount times 1000, both as strings.
  When they differ it throws \<open>Invoice amount mismatch\<close>; it returns an invoice only when
  they agree; every \<open>payInvoice\<close> call of an address payment is for an invoice whose
  decoded amount agreed; and when the lookup throws, \<open>makePayment\<close> returns a failure and
  calls nothing on the wallet.  Amounts that differ as numbers differ as strings, \<open>Number\<close>
  being a left inverse of \<open>String\<close> on the requested amount.
\<close>

theorem amount_mismatch_blocks_payment:
  "(decodeBolt11 w invoice = Inr v \<and> String_opt v \<noteq> String_of w m \<longrightarrow>
      check_invoice_amount w invoice m
        = (Inl (ErrorObj (''Invoice amount mismatch. Expected '' @ String_of w m
                           @ '', got '' @ String_opt v) JUndefined), []))
   \<and> (Number_of w (String_of w m) = m \<and> Number_of w s \<noteq> m \<longrightarrow> String_opt (Some s) \<noteq> String_of w m)
   \<and> (getInvoiceFromLnAddress w address amountSats = (Inr x, evs) \<longrightarrow>
        (\<exists>u. decodeBolt11 w x = Inr u \<and> String_opt u = String_of w (js_mul amountSats (Fin 1000))))
   \<and> (pp_type details = ln_address_payment
        \<and> Nwc ''payInvoice'' paid \<in> set (snd (makePayment w db details)) \<longrightarrow>
        (\<exists>u amount. pp_amount details = Some amount \<and> decodeBolt11 w paid = Inr u
            \<and> String_opt u = String_of w (js_mul amount (Fin 1000))))
   \<and> (pp_type details = ln_address_payment
        \<and> loadWallet w db (pp_npub details) = Inr (Some wallet) \<and> w_type wallet = W_nwc
        \<and> nonempty (pp_lnAddress details) = Some address
        \<and> truthy_amount (pp_amount details) = Some amountSats
        \<and> fst (getInvoiceFromLnAddress w address amountSats) = Inl e \<longrightarrow>
        (\<exists>msg. fst (makePayment w db details) = Inr (failed msg))
        \<and> \<not> list_ex is_Nwc (snd (makePayment w db details)))"
proof -
  have c1: "decodeBolt11 w invoice = Inr v \<and> String_opt v \<noteq> String_of w m \<longrightarrow>
      check_invoice_amount w invoice m
        = (Inl (ErrorObj (''Invoice amount mismatch. Expected '' @ String_of w m
                           @ '', got '' @ String_opt v) JUndefined), [])"
    by (simp add: check_invoice_amount_mismatch)
  have c2: "Number_of w (String_of w m) = m \<and> Number_of w s \<noteq> m \<longrightarrow> String_opt (Some s) \<noteq> String_of w m"
    by (auto simp: String_opt_def)
  have c3: "getInvoiceFromLnAddress w address amountSats = (Inr x, evs) \<longrightarrow>
        (\<exists>u. decodeBolt11 w x = Inr u \<and> String_opt u = String_of w (js_mul amountSats (Fin 1000)))"
    using getInvoiceFromLnAddress_Inr by blast
  have c4: "pp_type details = ln_address_payment
        \<and> Nwc ''payInvoice'' paid \<in> set (snd (makePayment w db details)) \<longrightarrow>
        (\<exists>u amount. pp_amount details = Some amount \<and> decodeBolt11 w paid = Inr u
            \<and> String_opt u = String_of w (js_mul amount (Fin 1000)))"
    using paid_invoice_matches_request by blast
  have c5: "pp_type details = ln_address_payment
        \<and> loadWallet w db (pp_npub details) = Inr (Some wallet) \<and> w_type wallet = W_nwc
        \<and> nonempty (pp_lnAddress details) = Some address
        \<and> truthy_amount (pp_amount details) = Some amountSats
        \<and> fst (getInvoiceFromLnAddress w address amountSats) = Inl e \<longrightarrow>
        (\<exists>msg. fst (makePayment w db details) = Inr (failed msg))
        \<and> \<not> list_ex is_Nwc (snd (makePayment w db details))"
  proof
    assume a: "pp_type details = ln_address_payment
        \<and> loadWallet w db (pp_npub details) = Inr (Some wallet) \<and> w_type wallet = W_nwc
        \<and> nonempty (pp_lnAddress details) = Some address
        \<and> truthy_amount (pp_amount details) = Some amountSats
        \<and> fst (getInvoiceFromLnAddress w address amountSats) = Inl e"
    then have "(\<exists>msg. fst (makePayment_nwc w wallet details) = Inr (failed msg))
         \<and> \<not> list_ex is_Nwc (snd (makePayment_nwc w wallet details))"
      using makePayment_nwc_lookup_fails by blast
    with a show "(\<exists>msg. fst (makePayment w db details) = Inr (failed msg))
        \<and> \<not> list_ex is_Nwc (snd (makePayment w db details))"
      by (simp add: makePayment_def split_beta)
  qed
  from c1 c2 c3 c4 c5 show ?thesis by (intro conjI)
qed


lemma parse_7000: "parse_number ''7000'' = Fin 7000"
  by code_simp

lemma parse_5000: "parse_number ''5000'' = Fin 5000"
  by code_simp

lemma lookup_mismatch:
  "getInvoiceFromLnAddress (lnurl_world ''5000'') ''alice@pay.example'' (Fin 7)
     = (Inl (ErrorObj ''Invoice amount mismatch. Expected 7000, got 5000'' JUndefined),
        [Log ''[LNURL] Getting invoice'', Log ''[LNURL] Fetching params'',
         Fetch ''https://pay.example/.well-known/lnurlp/alice'',
         Log ''[LNURL] Requesting invoice'',
         Fetch ''https://pay.example/cb?amount=7000''])"
  by (simp add: run_lookup)

theorem amount_mismatch_blocks_payment_witness:
  "check_invoice_amount (lnurl_world ''5000'') (JStr ''lnbc70n1invoice'') (Fin 7000)
     = (Inl (ErrorObj (''Invoice amount mismatch. Expected ''
                        @ String_of (lnurl_world ''5000'') (Fin 7000)
                        @ '', got '' @ String_opt (Some ''5000'')) JUndefined), [])
   \<and> String_opt (Some ''5000'') \<noteq> String_of (lnurl_world ''5000'') (Fin 7000)
   \<and> (\<exists>u. decodeBolt11 (lnurl_world ''7000'') (JStr ''lnbc70n1invoice'') = Inr u
          \<and> String_opt u = String_of (lnurl_world ''7000'') (js_mul (Fin 7) (Fin 1000)))
   \<and> (\<exists>u amount. pp_amount pay_alice = Some amount
          \<and> decodeBolt11 (lnurl_world ''7000'') (JStr ''lnbc70n1invoice'') = Inr u
          \<and> String_opt u = String_of (lnurl_world ''7000'') (js_mul amount (Fin 1000)))
   \<and> (\<exists>msg. fst (makePayment (lnurl_world ''5000'') [''npub1bob'' \<mapsto> nwc_row] pay_alice)
                = Inr (failed msg))
   \<and> \<not> list_ex is_Nwc (snd (makePayment (lnurl_world ''5000'') [''npub1bob'' \<mapsto> nwc_row] pay_alice))"
proof -
  note T5 = amount_mismatch_blocks_payment
    [where w = "lnurl_world ''5000''" and invoice = "JStr ''lnbc70n1invoice''" and v = "Some ''5000''"
       and m = "Fin 7000" and s = "''5000''" and details = pay_alice
       and db = "[''npub1bob'' \<mapsto> nwc_row]" and address = "''alice@pay.example''"
       and amountSats = "Fin 7"
       and wallet = "\<lparr> w_type = W_nwc, w_npub = ''npub1bob'',
                        nwcUri = Some ''nostr+walletconnect://abc'', lnAddress = None,
                        apiIdentifier = None, apiSubAccountId = None, apiLabel = None \<rparr>"
       and e = "ErrorObj ''Invoice amount mismatch. Expected 7000, got 5000'' JUndefined"]
  note T7 = amount_mismatch_blocks_payment
    [where w = "lnurl_world ''7000''" and address = "''alice@pay.example''" and amountSats = "Fin 7"
       and x = "JStr ''lnbc70n1invoice''"
       and evs = "[Log ''[LNURL] Getting invoice'', Log ''[LNURL] Fetching params'',
                   Fetch ''https://pay.example/.well-known/lnurlp/alice'',
                   Log ''[LNURL] Requesting invoice'',
                   Fetch ''https://pay.example/cb?amount=7000'',
                   Log ''[LNURL] Successfully fetched and verified invoice.'']"
       and details = pay_alice and db = "[''npub1bob'' \<mapsto> nwc_row]"
       and paid = "JStr ''lnbc70n1invoice''"]
  have h1: "decodeBolt11 (lnurl_world ''5000'') (JStr ''lnbc70n1invoice'') = Inr (Some ''5000'')
            \<and> String_opt (Some ''5000'') \<noteq> String_of (lnurl_world ''5000'') (Fin 7000)"
    by (simp add: lnurl_world_sel String_opt_def print_7000)
  have h2: "Number_of (lnurl_world ''5000'') (String_of (lnurl_world ''5000'') (Fin 7000)) = Fin 7000
            \<and> Number_of (lnurl_world ''5000'') ''5000'' \<noteq> Fin 7000"
    by (simp add: lnurl_world_sel print_7000 parse_7000 parse_5000)
  have h3: "getInvoiceFromLnAddress (lnurl_world ''7000'') ''alice@pay.example'' (Fin 7)
              = (Inr (JStr ''lnbc70n1invoice''),
                 [Log ''[LNURL] Getting invoice'', Log ''[LNURL] Fetching params'',
                  Fetch ''https://pay.example/.well-known/lnurlp/alice'',
                  Log ''[LNURL] Requesting invoice'',
                  Fetch ''https://pay.example/cb?amount=7000'',
                  Log ''[LNURL] Successfully fetched and verified invoice.''])"
    by (rule lookup_match)
  have h4: "pp_type pay_alice = ln_address_payment
            \<and> Nwc ''payInvoice'' (JStr ''lnbc70n1invoice'')
                \<in> set (snd (makePayment (lnurl_world ''7000'') [''npub1bob'' \<mapsto> nwc_row] pay_alice))"
    by (simp add: payment_after_match) (simp add: pay_alice_def)
  have h5: "pp_type pay_alice = ln_address_payment
        \<and> loadWallet (lnurl_world ''5000'') [''npub1bob'' \<mapsto> nwc_row] (pp_npub pay_alice)
            = Inr (Some \<lparr> w_type = W_nwc, w_npub = ''npub1bob'',
                        nwcUri = Some ''nostr+walletconnect://abc'', lnAddress = None,
                        apiIdentifier = None, apiSubAccountId = None, apiLabel = None \<rparr>)
        \<and> w_type \<lparr> w_type = W_nwc, w_npub = ''npub1bob'',
                        nwcUri = Some ''nostr+walletconnect://abc'', lnAddress = None,
                        apiIdentifier = None, apiSubAccountId = None, apiLabel = None \<rparr> = W_nwc
        \<and> nonempty (pp_lnAddress pay_alice) = Some ''alice@pay.example''
        \<and> truthy_amount (pp_amount pay_alice) = Some (Fin 7)
        \<and> fst (getInvoiceFromLnAddress (lnurl_world ''5000'') ''alice@pay.example'' (Fin 7))
            = Inl (ErrorObj ''Invoice amount mismatch. Expected 7000, got 5000'' JUndefined)"
    by (simp add: lookup_mismatch) (simp add: pay_alice_def load_bob nonempty_def truthy_amount_def)
  from T5 T7 h1 h2 h3 h4 h5 show ?thesis by blast
qed

subsection \<open>Outcomes of the payment dispatch\<close>

lemma loadWallet_api_identifier:
  "loadWallet w db npub = Inr (Some wallet) \<Longrightarrow> w_type wallet = W_api \<Longrightarrow>
     \<exists>identifier. nonempty (apiIdentifier wallet) = Some identifier"
  by (auto simp: loadWallet_def Let_def nonempty_def split: option.splits if_splits sum.splits)

lemma or_else_nonempty: "d \<noteq> [] \<Longrightarrow> or_else x d \<noteq> []"
  by (simp add: or_else_def split: option.splits)

lemma appendBalanceContext_nonempty:
  "message \<noteq> [] \<Longrightarrow> appendBalanceContext w snap message req \<noteq> []"
  by (simp add: appendBalanceContext_def split: option.splits)

lemma well_reported_failed: "msg \<noteq> [] \<Longrightarrow> well_reported (failed msg)"
  by (simp add: well_reported_def failed_def)

lemma api_result_reported: "well_reported (api_result w snap response req)"
  by (simp add: api_result_def Let_def well_reported_def failed_def appendBalanceContext_nonempty
      or_else_nonempty)

lemma api_payment_body_reported:
  "api_payment_body w i details snap a b = (Inr r, evs) \<Longrightarrow> well_reported r"
  by (auto simp: api_payment_body_def api_result_reported well_reported_failed
      split: if_splits option.splits prod.splits sum.splits)

lemma api_pay_total:
  "\<exists>r. fst (api_pay w i details snap) = Inr r \<and> well_reported r"
proof -
  obtain b bevs where b: "api_payment_body w i details snap
      (if pp_type details = ln_address_payment
             then (case truthy_amount (pp_amount details) of
                     Some amount \<Rightarrow> Some (js_mul amount (Fin 1000))
                   | None \<Rightarrow> None)
             else None)
      (fst (if pp_type details = ln_invoice_payment
             then (case nonempty (pp_lnInvoice details) of
                     Some invoice \<Rightarrow> decodeInvoiceMsats w invoice
                   | None \<Rightarrow> (None, []))
             else (None, []))) = (b, bevs)"
    by (cases "api_payment_body w i details snap
      (if pp_type details = ln_address_payment
             then (case truthy_amount (pp_amount details) of
                     Some amount \<Rightarrow> Some (js_mul amount (Fin 1000))
                   | None \<Rightarrow> None)
             else None)
      (fst (if pp_type details = ln_invoice_payment
             then (case nonempty (pp_lnInvoice details) of
                     Some invoice \<Rightarrow> decodeInvoiceMsats w invoice
                   | None \<Rightarrow> (None, []))
             else (None, [])))")
  show ?thesis
  proof (cases b)
    case (Inl e)
    with b show ?thesis
      by (simp add: api_pay_def Let_def split_beta well_reported_failed
          appendBalanceContext_nonempty or_else_nonempty)
  next
    case (Inr r)
    with b api_payment_body_reported [of w i details snap _ _ r bevs] show ?thesis
      by (simp add: api_pay_def Let_def split_beta)
  qed
qed

lemma makePayment_api_outcome:
  "nonempty (apiIdentifier wallet) = Some identifier \<Longrightarrow>
     fst (makePayment_api w wallet details)
       = fst (api_pay w identifier details (fst (balance_snapshot w identifier)))"
  by (simp add: makePayment_api_def Let_def split_beta)

lemma makePayment_api_events_split:
  "nonempty (apiIdentifier wallet) = Some identifier \<Longrightarrow>
     snd (makePayment_api w wallet details)
       = snd (refreshLedgerIfSupported w (Some identifier))
         @ snd (balance_snapshot w identifier)
         @ snd (api_pay w identifier details (fst (balance_snapshot w identifier)))"
proof -
  assume a: "nonempty (apiIdentifier wallet) = Some identifier"
  have "fst (refreshLedgerIfSupported w (Some identifier)) = Inr ()"
    by (simp add: refreshLedgerIfSupported_def split: option.splits prod.splits sum.splits)
  with a show ?thesis by (simp add: makePayment_api_def Let_def split_beta)
qed

lemma balance_snapshot_failed:
  "fst (nwcli_fetchBalance w identifier) = Inl e \<Longrightarrow>
     fst (balance_snapshot w identifier) = None
     \<and> LogErr ''[WalletManager] Failed to fetch balance before payment'' e
          \<in> set (snd (balance_snapshot w identifier))"
  by (cases "nwcli_fetchBalance w identifier") (simp add: balance_snapshot_def)

lemma refresh_failed_logged:
  "nonempty (Some identifier) = Some identifier \<Longrightarrow>
   fst (nwcli_refreshLedger w identifier) = Inl e \<Longrightarrow>
     LogErr ''[WalletManager] refreshLedger failed (non-fatal)'' e
       \<in> set (snd (refreshLedgerIfSupported w (Some identifier)))"
  by (cases "nwcli_refreshLedger w identifier") (simp add: refreshLedgerIfSupported_def)

lemma nonempty_Some: "nonempty x = Some s \<Longrightarrow> x = Some s \<and> s \<noteq> []"
  by (simp add: nonempty_def split: option.splits if_splits)

lemma api_payment_body_calls:
  "(pp_type details = ln_invoice_payment \<and> nonempty (pp_lnInvoice details) = Some invoice
      \<longrightarrow> Called ''payInvoice'' \<in> set (snd (api_payment_body w i details snap a b)))
   \<and> (pp_type details = ln_address_payment \<and> nonempty (pp_lnAddress details) = Some address
        \<and> truthy_amount (pp_amount details) = Some amount
      \<longrightarrow> Called ''payLnAddress'' \<in> set (snd (api_payment_body w i details snap a b)))"
  by (auto simp: api_payment_body_def nwcli_payInvoice_def nwcli_payLnAddress_def split_beta
      split: sum.splits prod.splits)

lemma api_pay_calls:
  "(pp_type details = ln_invoice_payment \<and> nonempty (pp_lnInvoice details) = Some invoice
      \<longrightarrow> Called ''payInvoice'' \<in> set (snd (api_pay w i details snap)))
   \<and> (pp_type details = ln_address_payment \<and> nonempty (pp_lnAddress details) = Some address
        \<and> truthy_amount (pp_amount details) = Some amount
      \<longrightarrow> Called ''payLnAddress'' \<in> set (snd (api_pay w i details snap)))"
  using api_payment_body_calls [of details invoice w i snap _ _ address amount]
  by (auto simp: api_pay_def Let_def split_beta split: sum.splits prod.splits)

lemma api_result_success:
  "success (api_result w snap response req) = i_success (interpretNwcliPaymentResponse (Number_of w) response)"
  by (simp add: api_result_def Let_def failed_def)

lemma api_payment_body_success_indep:
  "map_sum id success (fst (api_payment_body w i details snap a b))
     = map_sum id success (fst (api_payment_body w i details snap' a' b'))"
  by (auto simp: api_payment_body_def api_result_success failed_def
      split: if_splits option.splits prod.splits sum.splits)

lemma api_pay_success_indep:
  "map_sum id success (fst (api_pay w i details snap)) = map_sum id success (fst (api_pay w i details snap'))"
proof -
  let ?a = "(if pp_type details = ln_address_payment
             then (case truthy_amount (pp_amount details) of
                     Some amount \<Rightarrow> Some (js_mul amount (Fin 1000))
                   | None \<Rightarrow> None)
             else None)"
  let ?b = "fst (if pp_type details = ln_invoice_payment
             then (case nonempty (pp_lnInvoice details) of
                     Some invoice \<Rightarrow> decodeInvoiceMsats w invoice
                   | None \<Rightarrow> (None, []))
             else (None, []))"
  have eq: "map_sum id success (fst (api_payment_body w i details snap ?a ?b))
     = map_sum id success (fst (api_payment_body w i details snap' ?a ?b))"
    by (rule api_payment_body_success_indep)
  obtain x xe where x: "api_payment_body w i details snap ?a ?b = (x, xe)"
    by (cases "api_payment_body w i details snap ?a ?b")
  obtain y ye where y: "api_payment_body w i details snap' ?a ?b = (y, ye)"
    by (cases "api_payment_body w i details snap' ?a ?b")
  from eq x y show ?thesis
    by (cases x; cases y) (simp_all add: api_pay_def Let_def split_beta failed_def)
qed

lemma api_pay_threw:
  assumes "fst (api_payment_body w i details snap
      (if pp_type details = ln_address_payment
             then (case truthy_amount (pp_amount details) of
                     Some amount \<Rightarrow> Some (js_mul amount (Fin 1000))
                   | None \<Rightarrow> None)
             else None)
      (fst (if pp_type details = ln_invoice_payment
             then (case nonempty (pp_lnInvoice details) of
                     Some invoice \<Rightarrow> decodeInvoiceMsats w invoice
                   | None \<Rightarrow> (None, []))
             else (None, [])))) = Inl e"
  shows "\<exists>msg. fst (api_pay w i details snap) = Inr (failed msg)"
  using assms by (auto simp: api_pay_def Let_def split_beta split: sum.splits prod.splits)

lemma api_payment_body_threw:
  "(pp_type details = ln_invoice_payment \<and> nonempty (pp_lnInvoice details) = Some invoice
      \<and> fst (nwcli_payInvoice w i invoice) = Inl e
      \<longrightarrow> fst (api_payment_body w i details snap a b) = Inl e)
   \<and> (pp_type details = ln_address_payment \<and> nonempty (pp_lnAddress details) = Some address
        \<and> truthy_amount (pp_amount details) = Some amount
        \<and> fst (nwcli_payLnAddress w i address amount) = Inl e
      \<longrightarrow> fst (api_payment_body w i details snap a b) = Inl e)"
  by (auto simp: api_payment_body_def split: sum.splits prod.splits)

lemma nwc_pay_reported: "nwc_pay w invoice = (Inr r, evs) \<Longrightarrow> well_reported r"
  by (auto simp: nwc_pay_def well_reported_def failed_def split: sum.splits option.splits)

lemma nwc_payment_body_reported:
  "nwc_payment_body w uri details = (Inr r, evs) \<Longrightarrow> well_reported r"
  by (auto simp: nwc_payment_body_def well_reported_failed
      split: sum.splits option.splits prod.splits if_splits dest: nwc_pay_reported)

lemma makePayment_nwc_total:
  "\<exists>r. fst (makePayment_nwc w wallet details) = Inr r \<and> well_reported r
       \<and> (\<forall>uri e. nonempty (nwcUri wallet) = Some uri \<and> fst (nwc_payment_body w uri details) = Inl e
            \<longrightarrow> r = failed (or_else (message_of e) ''An unknown error occurred.''))"
proof (cases "nonempty (nwcUri wallet)")
  case None
  then show ?thesis by (simp add: makePayment_nwc_def well_reported_failed)
next
  case (Some uri)
  obtain b bevs where b: "nwc_payment_body w uri details = (b, bevs)"
    by (cases "nwc_payment_body w uri details")
  show ?thesis
  proof (cases b)
    case (Inl e)
    with b Some show ?thesis
      by (simp add: makePayment_nwc_def well_reported_failed or_else_nonempty)
  next
    case (Inr r)
    with b Some nwc_payment_body_reported [of w uri details r bevs] show ?thesis
      by (simp add: makePayment_nwc_def)
  qed
qed

end
